theory Spec2Isabelle
  imports Complex_Main
begin

section \<open>Data model\<close>

text \<open>
  The embedding follows \<^verbatim>\<open>src/services/coingecko.ts\<close> (class \<^verbatim>\<open>CoinGeckoService\<close>), its
  build \<^verbatim>\<open>build/services/coingecko.js\<close> (which adds \<^verbatim>\<open>getOHLCData\<close>) and the request
  handler of the stand-alone server (class \<^verbatim>\<open>CoinCache\<close> and the \<^verbatim>\<open>CallToolRequestSchema\<close>
  handler).

  A JavaScript \<^verbatim>\<open>number\<close> is modelled by a rational: the finite values, with exact
  arithmetic. On integer-valued arguments below \<open>2^53\<close> the double arithmetic of the
  source is exact as well, so model and code agree there; rounding of non-integer
  intermediate results is not modelled. A \<^verbatim>\<open>Date\<close> is its number of milliseconds.
\<close>

type_synonym number = rat

type_synonym Date = int

text \<open>
  \<^verbatim>\<open>interface CoinInfo { id: string; symbol: string; name: string;
                        platforms?: Record<string, string>; }\<close>
  The field \<^verbatim>\<open>id\<close> is written \<open>id'\<close> (\<open>id\<close> is the identity function of HOL).
\<close>

record CoinInfo =
  id' :: string
  symbol :: string
  name :: string
  platforms :: "(string \<times> string) list option"

text \<open>
  The private fields of \<^verbatim>\<open>CoinGeckoService\<close>: \<^verbatim>\<open>coins: CoinInfo[] = []\<close>,
  \<^verbatim>\<open>lastUpdated: Date | null = null\<close> and the constructor's \<^verbatim>\<open>apiKey\<close>.
\<close>

record CoinGeckoService =
  apiKey :: string
  coins :: "CoinInfo list"
  lastUpdated :: "Date option"


section \<open>Built-in operations of the language\<close>

text \<open>
  \<^verbatim>\<open>Array.prototype.slice(start, end)\<close>: both arguments are truncated towards zero
  (\<^verbatim>\<open>ToIntegerOrInfinity\<close>), a negative index counts from the end, and both are
  clamped to the length of the array; the result is empty when the final index does
  not exceed the first.
\<close>

definition ToIntegerOrInfinity :: "number \<Rightarrow> int" where
  "ToIntegerOrInfinity x = (if x < 0 then - \<lfloor>- x\<rfloor> else \<lfloor>x\<rfloor>)"

definition relativeIndex :: "nat \<Rightarrow> int \<Rightarrow> nat" where
  "relativeIndex len r = (if r < 0 then nat (max (int len + r) 0) else min (nat r) len)"

definition array_slice :: "'a list \<Rightarrow> number \<Rightarrow> number \<Rightarrow> 'a list" where
  "array_slice xs start end' =
     (let len = length xs;
          k = relativeIndex len (ToIntegerOrInfinity start);
          final = relativeIndex len (ToIntegerOrInfinity end')
      in take (final - k) (drop k xs))"

text \<open>
  \<^verbatim>\<open>String.prototype.toLowerCase\<close>, on the ASCII letters; a character outside
  \<^verbatim>\<open>A\<close>..\<^verbatim>\<open>Z\<close> is left as it is (the case mapping of the other Unicode letters is not
  modelled).
\<close>

definition lower_char :: "char \<Rightarrow> char" where
  "lower_char c =
     (case map_of (zip ''ABCDEFGHIJKLMNOPQRSTUVWXYZ'' ''abcdefghijklmnopqrstuvwxyz'') c of
        None \<Rightarrow> c
      | Some d \<Rightarrow> d)"

definition toLowerCase :: "string \<Rightarrow> string" where
  "toLowerCase s = map lower_char s"

section \<open>Access to the cached data\<close>

text \<open>
  \<^verbatim>\<open>getCoins(page: number = 1, pageSize: number = 100): CoinInfo[] {
    const start = (page - 1) * pageSize;
    const end = start + pageSize;
    return this.coins.slice(start, end);
  }\<close>
\<close>

definition getCoins :: "CoinGeckoService \<Rightarrow> number \<Rightarrow> number \<Rightarrow> CoinInfo list" where
  "getCoins this page pageSize =
     (let start = (page - 1) * pageSize;
          end' = start + pageSize
      in array_slice (coins this) start end')"

text \<open>
  \<^verbatim>\<open>getTotalPages(pageSize: number = 100): number {
    return Math.ceil(this.coins.length / pageSize);
  }\<close>
  The division by zero gives \<^verbatim>\<open>Infinity\<close> or \<^verbatim>\<open>NaN\<close> in the source: \<open>None\<close> here.
  The quotient is exact in this definition. The source rounds it to a double before
  \<^verbatim>\<open>Math.ceil\<close>: that is \<open>getTotalPages_double\<close> below, and the two agree on the integer
  page sizes from 1 to 1000.
\<close>

definition getTotalPages :: "CoinGeckoService \<Rightarrow> number \<Rightarrow> int option" where
  "getTotalPages this pageSize =
     (if pageSize = 0 then None
      else Some \<lceil>of_nat (length (coins this)) / pageSize\<rceil>)"

text \<open>\<^verbatim>\<open>getLastUpdated(): Date | null { return this.lastUpdated; }\<close>\<close>

definition getLastUpdated :: "CoinGeckoService \<Rightarrow> Date option" where
  "getLastUpdated this = lastUpdated this"

text \<open>
  \<^verbatim>\<open>findCoinIds(coinNames: string[]): { name: string; id: string | null }[] {
    return coinNames.map((name) => {
      const normalizedName = name.toLowerCase();
      const coin = this.coins.find(
        (c) =>
          c.name.toLowerCase() === normalizedName ||
          c.symbol.toLowerCase() === normalizedName
      );
      return { name, id: coin?.id || null };
    });
  }\<close>
  A result \<^verbatim>\<open>{name, id}\<close> is the pair of the name and the id, \<open>None\<close> for \<^verbatim>\<open>null\<close>.
  The empty string is the only falsy string, so \<^verbatim>\<open>coin?.id || null\<close> is \<^verbatim>\<open>null\<close> for
  no coin and for a coin whose id is empty.
\<close>

definition findCoinIds :: "CoinGeckoService \<Rightarrow> string list \<Rightarrow> (string \<times> string option) list" where
  "findCoinIds this coinNames =
     map (\<lambda>name'.
        let normalizedName = toLowerCase name';
            coin = find (\<lambda>c. toLowerCase (name c) = normalizedName \<or>
                              toLowerCase (symbol c) = normalizedName) (coins this)
        in (name', case coin of
                     None \<Rightarrow> None
                   | Some c \<Rightarrow> if id' c = [] then None else Some (id' c)))
       coinNames"

section \<open>The division in double precision\<close>








section \<open>The upstream service\<close>

text \<open>
  A parsed JSON document, for the bodies whose shape the source does not declare and for
  the argument bag of a tool call.
\<close>

datatype json =
    JNull
  | JBool bool
  | JNum number
  | JStr string
  | JArr "json list"
  | JObj "(string \<times> json) list"

text \<open>
  One issue of a failed validation (\<^verbatim>\<open>ZodIssue\<close>): the path of the offending field and
  the message of the violated constraint.
\<close>

record ZodIssue =
  path :: "string list"
  message :: string

text \<open>
  The values the source throws: \<^verbatim>\<open>new Error(message)\<close>, the rejection of \<^verbatim>\<open>fetch\<close>
  (a transport failure), the \<^verbatim>\<open>SyntaxError\<close> of \<^verbatim>\<open>response.json()\<close> on a body that is
  not JSON, the \<^verbatim>\<open>TypeError\<close> of a call or a destructuring on a value of the wrong
  shape, the \<^verbatim>\<open>RangeError\<close> of \<^verbatim>\<open>toISOString\<close> on an invalid date, and the
  \<^verbatim>\<open>ZodError\<close> of a failed \<^verbatim>\<open>parse\<close>.
\<close>

datatype error =
    Error string
  | FetchFailed string
  | SyntaxError
  | TypeError
  | RangeError
  | ZodError "ZodIssue list"

text \<open>
  The \<^verbatim>\<open>Response\<close> of \<^verbatim>\<open>fetch\<close>: \<open>body_text\<close> is what \<^verbatim>\<open>response.text()\<close> resolves to,
  \<open>body_json\<close> what \<^verbatim>\<open>response.json()\<close> resolves to, \<open>None\<close> when it rejects. The type
  \<open>'a\<close> is the type the caller declares for the parsed body (\<^verbatim>\<open>CoinInfo[]\<close>,
  \<^verbatim>\<open>HistoricalData\<close>); the source does not check it at run time, and a well-formed
  document of another shape is outside this typed model.
\<close>

record 'a Response =
  ok :: bool
  status :: nat
  statusText :: string
  body_text :: string
  body_json :: "'a option"

datatype 'a fetch_result = Rejected error | Resolved "'a Response"

text \<open>
  \<^verbatim>\<open>interface HistoricalData { prices: [number, number][];
     market_caps: [number, number][]; total_volumes: [number, number][]; }\<close>
\<close>

record HistoricalData =
  prices :: "(number \<times> number) list"
  market_caps :: "(number \<times> number) list"
  total_volumes :: "(number \<times> number) list"

text \<open>
  The three requests of the source, by endpoint and query parameters (the text of the
  URL is not modelled):
  \<^verbatim>\<open>/coins/list?include_platform=true\<close>,
  \<^verbatim>\<open>/coins/${id}/market_chart/range?vs_currency=..&from=..&to=..[&interval=..]\<close> and
  \<^verbatim>\<open>/coins/${id}/ohlc/range?vs_currency=..&from=..&to=..&interval=..\<close>.
\<close>

datatype request =
    CoinsList
  | MarketChartRange string string number number "string option"
  | OHLCRange string string number number string

text \<open>
  The global \<^verbatim>\<open>fetch\<close>, given the API key of the header and the request: one field for
  each type of body that a caller reads.
\<close>

record upstream =
  fetch_coins :: "string \<Rightarrow> request \<Rightarrow> CoinInfo list fetch_result"
  fetch_chart :: "string \<Rightarrow> request \<Rightarrow> HistoricalData fetch_result"
  fetch_ohlc :: "string \<Rightarrow> request \<Rightarrow> json fetch_result"

text \<open>Decimal digits of a natural number (\<^verbatim>\<open>String(n)\<close> in a template literal).\<close>

fun show_nat :: "nat \<Rightarrow> string" where
  "show_nat n =
     (if n < 10 then [''0123456789'' ! n]
      else show_nat (n div 10) @ [''0123456789'' ! (n mod 10)])"

declare show_nat.simps [simp del]

section \<open>Fetching\<close>

text \<open>
  \<^verbatim>\<open>async refreshCoinList(): Promise<void> {
    try {
      const response = await fetch(`${this.baseUrl}/coins/list?include_platform=true`,
        { headers: { "X-Cg-Pro-Api-Key": this.apiKey } });
      if (!response.ok) {
        throw new Error(`API request failed: ${response.statusText}`);
      }
      this.coins = await response.json();
      this.lastUpdated = new Date();
    } catch (error) {
      console.error("Error refreshing coin cache:", error);
      throw error;
    }
  }\<close>
  The result is the outcome of the promise and the state of the object afterwards;
  \<open>now\<close> is the value of \<^verbatim>\<open>new Date()\<close>. The log on the console is not modelled.
\<close>

definition refreshCoinList ::
  "upstream \<Rightarrow> Date \<Rightarrow> CoinGeckoService \<Rightarrow> (error + unit) \<times> CoinGeckoService" where
  "refreshCoinList up now this =
     (case fetch_coins up (apiKey this) CoinsList of
        Rejected e \<Rightarrow> (Inl e, this)
      | Resolved response \<Rightarrow>
          if \<not> ok response
          then (Inl (Error (''API request failed: '' @ statusText response)), this)
          else (case body_json response of
                  None \<Rightarrow> (Inl SyntaxError, this)
                | Some cs \<Rightarrow> (Inr (), this\<lparr>coins := cs, lastUpdated := Some now\<rparr>)))"

text \<open>
  \<^verbatim>\<open>async getHistoricalData(id, vs_currency, from, to, interval?) {
    let url = `${this.baseUrl}/coins/${id}/market_chart/range?vs_currency=...`;
    if (interval) { url += `&interval=${interval}`; }
    try {
      const response = await fetch(url, { headers: ... });
      if (!response.ok) {
        throw new Error(`API request failed: ${response.statusText}`);
      }
      return await response.json();
    } catch (error) { console.error(...); throw error; }
  }\<close>
  The interval is \<open>None\<close> for \<^verbatim>\<open>undefined\<close>; the empty string is falsy as well.
\<close>

definition getHistoricalData ::
  "upstream \<Rightarrow> CoinGeckoService \<Rightarrow> string \<Rightarrow> string \<Rightarrow> number \<Rightarrow> number \<Rightarrow> string option
     \<Rightarrow> error + HistoricalData" where
  "getHistoricalData up this cid vs_currency from to interval =
     (let url = MarketChartRange cid vs_currency from to
                  (case interval of
                     None \<Rightarrow> None
                   | Some i \<Rightarrow> if i = [] then None else Some i)
      in case fetch_chart up (apiKey this) url of
           Rejected e \<Rightarrow> Inl e
         | Resolved response \<Rightarrow>
             if \<not> ok response
             then Inl (Error (''API request failed: '' @ statusText response))
             else (case body_json response of
                     None \<Rightarrow> Inl SyntaxError
                   | Some d \<Rightarrow> Inr d))"

text \<open>
  One bar of \<^verbatim>\<open>getOHLCData\<close>, the object \<^verbatim>\<open>{timestamp, open, high, low, close}\<close>. A
  field is \<open>None\<close> when the destructured position does not exist (\<^verbatim>\<open>undefined\<close>).
\<close>

record OHLCData =
  timestamp :: "json option"
  open_price :: "json option"
  high :: "json option"
  low :: "json option"
  close_price :: "json option"

text \<open>
  The array pattern \<^verbatim>\<open>[timestamp, open, high, low, close]\<close> iterates its argument: an
  array gives its elements, a string its characters, and any other JSON value is not
  iterable (\<^verbatim>\<open>TypeError\<close>).
\<close>

fun iterate :: "json \<Rightarrow> error + json list" where
  "iterate (JArr xs) = Inr xs"
| "iterate (JStr s) = Inr (map (\<lambda>c. JStr [c]) s)"
| "iterate _ = Inl TypeError"

definition position :: "json list \<Rightarrow> nat \<Rightarrow> json option" where
  "position xs i = (if i < length xs then Some (xs ! i) else None)"

definition reshape :: "json \<Rightarrow> error + OHLCData" where
  "reshape row =
     (case iterate row of
        Inl e \<Rightarrow> Inl e
      | Inr xs \<Rightarrow>
          Inr \<lparr>timestamp = position xs 0, open_price = position xs 1, high = position xs 2,
               low = position xs 3, close_price = position xs 4\<rparr>)"

text \<open>\<^verbatim>\<open>data.map(f)\<close> where \<open>f\<close> may throw: the first exception ends the loop.\<close>

fun map_throwing :: "('a \<Rightarrow> error + 'b) \<Rightarrow> 'a list \<Rightarrow> error + 'b list" where
  "map_throwing f [] = Inr []"
| "map_throwing f (x # xs) =
     (case f x of
        Inl e \<Rightarrow> Inl e
      | Inr y \<Rightarrow> (case map_throwing f xs of Inl e \<Rightarrow> Inl e | Inr ys \<Rightarrow> Inr (y # ys)))"

text \<open>
  \<^verbatim>\<open>async getOHLCData(id, vs_currency, from, to, interval) {
    const url = `${this.baseUrl}/coins/${id}/ohlc/range?vs_currency=...&interval=${interval}`;
    try {
      const response = await fetch(url, { headers: ... });
      if (!response.ok) {
        const responseText = await response.text();
        throw new Error(`API request failed: ${response.status} ${response.statusText} - ${responseText}`);
      }
      const data = await response.json();
      // CoinGecko returns [timestamp, open, high, low, close]
      return data.map(([timestamp, open, high, low, close]) => ({
        timestamp, open, high, low, close
      }));
    } catch (error) { console.error(...); throw error; }
  }\<close>
  A body that is not an array has no method \<^verbatim>\<open>map\<close> (\<^verbatim>\<open>TypeError\<close>).
\<close>

definition getOHLCData ::
  "upstream \<Rightarrow> CoinGeckoService \<Rightarrow> string \<Rightarrow> string \<Rightarrow> number \<Rightarrow> number \<Rightarrow> string
     \<Rightarrow> error + OHLCData list" where
  "getOHLCData up this cid vs_currency from to interval =
     (let url = OHLCRange cid vs_currency from to interval
      in case fetch_ohlc up (apiKey this) url of
           Rejected e \<Rightarrow> Inl e
         | Resolved response \<Rightarrow>
             if \<not> ok response
             then Inl (Error (''API request failed: '' @ show_nat (status response) @ '' '' @
                              statusText response @ '' - '' @ body_text response))
             else (case body_json response of
                     None \<Rightarrow> Inl SyntaxError
                   | Some (JArr data) \<Rightarrow> map_throwing reshape data
                   | Some _ \<Rightarrow> Inl TypeError))"

section \<open>The methods as calls on the object\<close>

text \<open>
  A call of a method of \<^verbatim>\<open>CoinGeckoService\<close> with its arguments; an omitted optional
  argument is \<open>None\<close> and takes the default of the declaration (\<^verbatim>\<open>page = 1\<close>,
  \<^verbatim>\<open>pageSize = 100\<close>).
\<close>

datatype method_call =
    Call_refreshCoinList
  | Call_getHistoricalData string string number number "string option"
  | Call_getOHLCData string string number number string
  | Call_getCoins "number option" "number option"
  | Call_findCoinIds "string list"
  | Call_getTotalPages "number option"
  | Call_getLastUpdated

datatype answer =
    Void
  | Series HistoricalData
  | Bars "OHLCData list"
  | Coins "CoinInfo list"
  | Ids "(string \<times> string option) list"
  | Pages "int option"
  | Updated "Date option"

definition or_default :: "'a \<Rightarrow> 'a option \<Rightarrow> 'a" where
  "or_default d v = (case v of None \<Rightarrow> d | Some x \<Rightarrow> x)"

text \<open>
  The outcome of one call and the object afterwards. Only \<^verbatim>\<open>refreshCoinList\<close> assigns
  to a field; the other bodies read \<^verbatim>\<open>this\<close> and return.
\<close>

fun invoke ::
  "upstream \<Rightarrow> Date \<Rightarrow> method_call \<Rightarrow> CoinGeckoService \<Rightarrow> (error + answer) \<times> CoinGeckoService" where
  "invoke up now Call_refreshCoinList this =
     (case refreshCoinList up now this of
        (Inl e, this') \<Rightarrow> (Inl e, this')
      | (Inr _, this') \<Rightarrow> (Inr Void, this'))"
| "invoke up now (Call_getHistoricalData cid vs from to interval) this =
     (map_sum (\<lambda>e. e) Series (getHistoricalData up this cid vs from to interval), this)"
| "invoke up now (Call_getOHLCData cid vs from to interval) this =
     (map_sum (\<lambda>e. e) Bars (getOHLCData up this cid vs from to interval), this)"
| "invoke up now (Call_getCoins page pageSize) this =
     (Inr (Coins (getCoins this (or_default 1 page) (or_default 100 pageSize))), this)"
| "invoke up now (Call_findCoinIds coinNames) this =
     (Inr (Ids (findCoinIds this coinNames)), this)"
| "invoke up now (Call_getTotalPages pageSize) this =
     (Inr (Pages (getTotalPages this (or_default 100 pageSize))), this)"
| "invoke up now Call_getLastUpdated this =
     (Inr (Updated (getLastUpdated this)), this)"

fun invoke_all ::
  "upstream \<Rightarrow> Date \<Rightarrow> method_call list \<Rightarrow> CoinGeckoService
     \<Rightarrow> (error + answer) list \<times> CoinGeckoService" where
  "invoke_all up now [] this = ([], this)"
| "invoke_all up now (m # ms) this =
     (case invoke up now m this of
        (r, this') \<Rightarrow> (case invoke_all up now ms this' of (rs, this'') \<Rightarrow> (r # rs, this'')))"

text \<open>The four utility methods for accessing cached data.\<close>

fun query :: "method_call \<Rightarrow> bool" where
  "query (Call_getCoins _ _) = True"
| "query (Call_findCoinIds _) = True"
| "query (Call_getTotalPages _) = True"
| "query Call_getLastUpdated = True"
| "query _ = False"

section \<open>The request handler\<close>

text \<open>
  The handler of \<^verbatim>\<open>CallToolRequestSchema\<close> in the stand-alone server. Its \<^verbatim>\<open>CoinCache\<close>
  has the methods \<^verbatim>\<open>getCoins\<close>, \<^verbatim>\<open>findCoinIds\<close>, \<^verbatim>\<open>getTotalPages\<close>, \<^verbatim>\<open>getLastUpdated\<close>
  and \<^verbatim>\<open>getHistoricalData\<close> of \<^verbatim>\<open>CoinGeckoService\<close>, with the same bodies, and
  \<^verbatim>\<open>refreshCache\<close> with the body of \<^verbatim>\<open>refreshCoinList\<close>.

  The schemas are objects of the validation library, which is not part of the
  repository: the handler takes their \<^verbatim>\<open>parse\<close> functions as a parameter. A \<^verbatim>\<open>parse\<close>
  returns the parsed arguments or the issues of the \<^verbatim>\<open>ZodError\<close> it throws. The
  argument bag is \<open>None\<close> when the request has no \<^verbatim>\<open>arguments\<close>.
\<close>

type_synonym GetCoinsArguments = "number option \<times> number option"

type_synonym FindCoinIdsArguments = "string list"

type_synonym GetHistoricalDataArguments =
  "string \<times> string \<times> number \<times> number \<times> string option"

record zod =
  GetCoinsArgumentsSchema :: "json option \<Rightarrow> ZodIssue list + GetCoinsArguments"
  FindCoinIdsArgumentsSchema :: "json option \<Rightarrow> ZodIssue list + FindCoinIdsArguments"
  GetHistoricalDataArgumentsSchema ::
    "json option \<Rightarrow> ZodIssue list + GetHistoricalDataArguments"

text \<open>
  The object that is serialised into the text of the response (\<^verbatim>\<open>JSON.stringify\<close> and
  the text of an ISO date are not modelled):
  the page with \<^verbatim>\<open>currentPage\<close>, \<^verbatim>\<open>totalPages\<close>, \<^verbatim>\<open>pageSize\<close> and \<^verbatim>\<open>lastUpdated\<close>;
  the results of the lookup; the date of the refresh; the time range, the interval
  and the data of a historical series.
\<close>

datatype payload =
    CoinsPage "CoinInfo list" number "int option" number "Date option"
  | CoinIds "(string \<times> string option) list"
  | CacheRefreshed "Date option"
  | HistoricalSeries Date Date string HistoricalData

text \<open>
  \<^verbatim>\<open>new Date(value)\<close> clips the time value: beyond 8.64e15 milliseconds the date is
  invalid (\<open>None\<close>), and \<^verbatim>\<open>toISOString\<close> throws a \<^verbatim>\<open>RangeError\<close> on an invalid date.
\<close>

definition new_Date :: "number \<Rightarrow> Date option" where
  "new_Date v = (if \<bar>v\<bar> \<le> 8640000000000000 then Some (ToIntegerOrInfinity v) else None)"

definition toISOString :: "Date option \<Rightarrow> error + Date" where
  "toISOString d = (case d of None \<Rightarrow> Inl RangeError | Some t \<Rightarrow> Inr t)"

text \<open>\<^verbatim>\<open>Array.prototype.join(separator)\<close> on an array of strings.\<close>

fun join :: "string \<Rightarrow> string list \<Rightarrow> string" where
  "join sep [] = []"
| "join sep [x] = x"
| "join sep (x # y # ys) = x @ sep @ join sep (y # ys)"

text \<open>
  The \<^verbatim>\<open>try\<close> block: the first branch whose name matches parses the arguments, calls the
  cache and returns. The third component lists the calls made on the cache, in order;
  \<^verbatim>\<open>fetch\<close> is called inside \<^verbatim>\<open>refreshCache\<close> and \<^verbatim>\<open>getHistoricalData\<close> only.
\<close>

definition handler_try ::
  "zod \<Rightarrow> upstream \<Rightarrow> Date \<Rightarrow> string \<Rightarrow> json option \<Rightarrow> CoinGeckoService
     \<Rightarrow> (error + payload) \<times> CoinGeckoService \<times> method_call list" where
  "handler_try z up now tool args cache =
     (if tool = ''get-coins'' then
        (case GetCoinsArgumentsSchema z args of
           Inl issues \<Rightarrow> (Inl (ZodError issues), cache, [])
         | Inr (page_arg, pageSize_arg) \<Rightarrow>
             let page = or_default 1 page_arg;
                 pageSize = or_default 100 pageSize_arg;
                 coins' = getCoins cache page pageSize;
                 totalPages = getTotalPages cache pageSize;
                 lastUpdated' = getLastUpdated cache
             in (Inr (CoinsPage coins' page totalPages pageSize lastUpdated'), cache,
                 [Call_getCoins (Some page) (Some pageSize), Call_getTotalPages (Some pageSize),
                  Call_getLastUpdated]))
      else if tool = ''find-coin-ids'' then
        (case FindCoinIdsArgumentsSchema z args of
           Inl issues \<Rightarrow> (Inl (ZodError issues), cache, [])
         | Inr coins' \<Rightarrow>
             (Inr (CoinIds (findCoinIds cache coins')), cache, [Call_findCoinIds coins']))
      else if tool = ''refresh-cache'' then
        (case refreshCoinList up now cache of
           (Inl e, cache') \<Rightarrow> (Inl e, cache', [Call_refreshCoinList])
         | (Inr _, cache') \<Rightarrow>
             (Inr (CacheRefreshed (getLastUpdated cache')), cache',
              [Call_refreshCoinList, Call_getLastUpdated]))
      else if tool = ''get-historical-data'' then
        (case GetHistoricalDataArgumentsSchema z args of
           Inl issues \<Rightarrow> (Inl (ZodError issues), cache, [])
         | Inr (cid, vs_currency, from, to, interval) \<Rightarrow>
             let called = [Call_getHistoricalData cid vs_currency from to interval]
             in (case getHistoricalData up cache cid vs_currency from to interval of
                   Inl e \<Rightarrow> (Inl e, cache, called)
                 | Inr data \<Rightarrow>
                    (case toISOString (new_Date (from * 1000)) of
                       Inl e \<Rightarrow> (Inl e, cache, called)
                     | Inr from_date \<Rightarrow>
                        (case toISOString (new_Date (to * 1000)) of
                           Inl e \<Rightarrow> (Inl e, cache, called)
                         | Inr to_date \<Rightarrow>
                            (Inr (HistoricalSeries from_date to_date
                                    (case interval of
                                       None \<Rightarrow> ''auto''
                                     | Some i \<Rightarrow> if i = [] then ''auto'' else i)
                                    data),
                             cache, called)))))
      else (Inl (Error (''Unknown tool: '' @ tool)), cache, []))"

text \<open>
  The \<^verbatim>\<open>catch\<close> block:
  \<^verbatim>\<open>if (error instanceof z.ZodError) {
    throw new Error(`Invalid arguments: ${error.errors
      .map((e) => `${e.path.join(".")}: ${e.message}`).join(", ")}`);
  }
  throw error;\<close>
\<close>

definition handler_catch :: "error \<Rightarrow> error" where
  "handler_catch err =
     (case err of
        ZodError errors \<Rightarrow>
          Error (''Invalid arguments: '' @
                 join '', '' (map (\<lambda>e. join ''.'' (path e) @ '': '' @ message e) errors))
      | _ \<Rightarrow> err)"

definition handler ::
  "zod \<Rightarrow> upstream \<Rightarrow> Date \<Rightarrow> string \<Rightarrow> json option \<Rightarrow> CoinGeckoService
     \<Rightarrow> (error + payload) \<times> CoinGeckoService \<times> method_call list" where
  "handler z up now tool args cache =
     (case handler_try z up now tool args cache of
        (Inl err, cache', called) \<Rightarrow> (Inl (handler_catch err), cache', called)
      | (Inr result, cache', called) \<Rightarrow> (Inr result, cache', called))"

section \<open>The declared schemas\<close>

text \<open>
  A model of the validation library on the three schemas the server declares, with the
  default messages of the library:
  \<^verbatim>\<open>const GetCoinsArgumentsSchema = z.object({
    page: z.number().min(1).optional(),
    pageSize: z.number().min(1).max(1000).optional(),
  });
  const FindCoinIdsArgumentsSchema = z.object({ coins: z.array(z.string()) });
  const GetHistoricalDataArgumentsSchema = z.object({
    id: z.string(), vs_currency: z.string(), from: z.number(), to: z.number(),
    interval: z.enum(['5m', 'hourly', 'daily']).optional(),
  });\<close>
  A schema takes the path of the value and the value, \<open>None\<close> for \<^verbatim>\<open>undefined\<close>.
\<close>

fun typeName :: "json option \<Rightarrow> string" where
  "typeName None = ''undefined''"
| "typeName (Some JNull) = ''null''"
| "typeName (Some (JBool _)) = ''boolean''"
| "typeName (Some (JNum _)) = ''number''"
| "typeName (Some (JStr _)) = ''string''"
| "typeName (Some (JArr _)) = ''array''"
| "typeName (Some (JObj _)) = ''object''"

definition invalid_type :: "string \<Rightarrow> string list \<Rightarrow> json option \<Rightarrow> ZodIssue" where
  "invalid_type expected p v =
     \<lparr>path = p,
      message = (if v = None then ''Required''
                 else ''Expected '' @ expected @ '', received '' @ typeName v)\<rparr>"

definition z_number ::
  "nat option \<Rightarrow> nat option \<Rightarrow> string list \<Rightarrow> json option \<Rightarrow> ZodIssue list + number" where
  "z_number lo hi p v =
     (case v of
        Some (JNum n) \<Rightarrow>
          let too_small =
                (case lo of
                   None \<Rightarrow> []
                 | Some l \<Rightarrow>
                     if n < of_nat l
                     then [\<lparr>path = p,
                            message = ''Number must be greater than or equal to '' @ show_nat l\<rparr>]
                     else []);
              too_big =
                (case hi of
                   None \<Rightarrow> []
                 | Some h \<Rightarrow>
                     if of_nat h < n
                     then [\<lparr>path = p,
                            message = ''Number must be less than or equal to '' @ show_nat h\<rparr>]
                     else [])
          in if too_small @ too_big = [] then Inr n else Inl (too_small @ too_big)
      | _ \<Rightarrow> Inl [invalid_type ''number'' p v])"

definition z_string :: "string list \<Rightarrow> json option \<Rightarrow> ZodIssue list + string" where
  "z_string p v =
     (case v of
        Some (JStr s) \<Rightarrow> Inr s
      | _ \<Rightarrow> Inl [invalid_type ''string'' p v])"

definition z_optional ::
  "(string list \<Rightarrow> json option \<Rightarrow> ZodIssue list + 'a) \<Rightarrow> string list \<Rightarrow> json option
     \<Rightarrow> ZodIssue list + 'a option" where
  "z_optional schema p v =
     (case v of
        None \<Rightarrow> Inr None
      | Some _ \<Rightarrow> map_sum (\<lambda>issues. issues) Some (schema p v))"

definition issues_of :: "ZodIssue list + 'a \<Rightarrow> ZodIssue list" where
  "issues_of r = (case r of Inl issues \<Rightarrow> issues | Inr _ \<Rightarrow> [])"

definition both ::
  "ZodIssue list + 'a \<Rightarrow> ZodIssue list + 'b \<Rightarrow> ZodIssue list + ('a \<times> 'b)" where
  "both a b =
     (case a of
        Inr x \<Rightarrow> (case b of Inr y \<Rightarrow> Inr (x, y) | Inl issues \<Rightarrow> Inl issues)
      | Inl issues \<Rightarrow> Inl (issues @ issues_of b))"

fun z_array ::
  "(string list \<Rightarrow> json option \<Rightarrow> ZodIssue list + 'a) \<Rightarrow> string list \<Rightarrow> nat \<Rightarrow> json list
     \<Rightarrow> ZodIssue list + 'a list" where
  "z_array schema p i [] = Inr []"
| "z_array schema p i (x # xs) =
     map_sum (\<lambda>issues. issues) (\<lambda>(y, ys). y # ys)
       (both (schema (p @ [show_nat i]) (Some x)) (z_array schema p (Suc i) xs))"

definition z_array_of ::
  "(string list \<Rightarrow> json option \<Rightarrow> ZodIssue list + 'a) \<Rightarrow> string list \<Rightarrow> json option
     \<Rightarrow> ZodIssue list + 'a list" where
  "z_array_of schema p v =
     (case v of
        Some (JArr xs) \<Rightarrow> z_array schema p 0 xs
      | _ \<Rightarrow> Inl [invalid_type ''array'' p v])"

definition quoted :: "string list \<Rightarrow> string" where
  "quoted options = join '' | '' (map (\<lambda>s. [CHR 0x27] @ s @ [CHR 0x27]) options)"

definition z_enum :: "string list \<Rightarrow> string list \<Rightarrow> json option \<Rightarrow> ZodIssue list + string" where
  "z_enum options p v =
     (case v of
        Some (JStr s) \<Rightarrow>
          if s \<in> set options then Inr s
          else Inl [\<lparr>path = p,
                     message = ''Invalid enum value. Expected '' @ quoted options @
                               '', received '' @ [CHR 0x27] @ s @ [CHR 0x27]\<rparr>]
      | _ \<Rightarrow> Inl [invalid_type (quoted options) p v])"

text \<open>
  \<^verbatim>\<open>z.object(shape)\<close>: the value must be an object; each field of the shape is looked up
  by its key (a later entry of the same key overrides an earlier one), and unknown keys
  are dropped.
\<close>

definition z_object ::
  "((string \<Rightarrow> json option) \<Rightarrow> ZodIssue list + 'a) \<Rightarrow> json option \<Rightarrow> ZodIssue list + 'a" where
  "z_object shape v =
     (case v of
        Some (JObj entries) \<Rightarrow> shape (map_of (rev entries))
      | _ \<Rightarrow> Inl [invalid_type ''object'' [] v])"

definition schemas :: zod where
  "schemas =
     \<lparr>GetCoinsArgumentsSchema =
        z_object (\<lambda>field.
          both (z_optional (z_number (Some 1) None) [''page''] (field ''page''))
               (z_optional (z_number (Some 1) (Some 1000)) [''pageSize''] (field ''pageSize''))),
      FindCoinIdsArgumentsSchema =
        z_object (\<lambda>field. z_array_of z_string [''coins''] (field ''coins'')),
      GetHistoricalDataArgumentsSchema =
        z_object (\<lambda>field.
          both (z_string [''id''] (field ''id''))
            (both (z_string [''vs_currency''] (field ''vs_currency''))
               (both (z_number None None [''from''] (field ''from''))
                  (both (z_number None None [''to''] (field ''to''))
                     (z_optional (z_enum [''5m'', ''hourly'', ''daily'']) [''interval'']
                        (field ''interval''))))))\<rparr>"

section \<open>The matching rule of the specification\<close>

text \<open>
  The rule of the lookup in the words of the specification: a record matches a query
  string when its name or its symbol equals the string after lowercasing both sides.
\<close>

definition matches :: "string \<Rightarrow> CoinInfo \<Rightarrow> bool" where
  "matches q c \<longleftrightarrow> toLowerCase (name c) = toLowerCase q \<or> toLowerCase (symbol c) = toLowerCase q"

section \<open>Example values\<close>

text \<open>
  The record of the specification's example, three more records, and a record whose id
  is the empty string; a populated cache, a cache whose first record has the empty id,
  a cache of four records and a cache of one record.
\<close>

definition bitcoin :: CoinInfo where
  "bitcoin = \<lparr>id' = ''bitcoin'', symbol = ''btc'', name = ''Bitcoin'', platforms = None\<rparr>"

definition ethereum :: CoinInfo where
  "ethereum = \<lparr>id' = ''ethereum'', symbol = ''eth'', name = ''Ethereum'', platforms = None\<rparr>"

definition tether :: CoinInfo where
  "tether = \<lparr>id' = ''tether'', symbol = ''usdt'', name = ''Tether'',
              platforms = Some [(''ethereum'', ''0xdac17f958d2ee523a2206206994597c13d831ec7'')]\<rparr>"

definition nameless :: CoinInfo where
  "nameless = \<lparr>id' = '''', symbol = ''btc'', name = ''Bitcoin'', platforms = None\<rparr>"


definition populated :: CoinGeckoService where
  "populated = \<lparr>apiKey = ''key'', coins = [bitcoin, ethereum, tether],
                 lastUpdated = Some 1711296000000\<rparr>"

definition shadowed :: CoinGeckoService where
  "shadowed = \<lparr>apiKey = ''key'', coins = [nameless, bitcoin], lastUpdated = Some 1711296000000\<rparr>"


definition single :: CoinGeckoService where
  "single = \<lparr>apiKey = ''key'', coins = [bitcoin], lastUpdated = Some 1711296000000\<rparr>"

text \<open>
  An upstream that answers every request with status 500, and one that answers with a
  catalogue without \<open>bitcoin\<close>, an empty series and one bar.
\<close>

definition server_error :: "'a Response" where
  "server_error = \<lparr>ok = False, status = 500, statusText = ''Internal Server Error'',
                    body_text = '''', body_json = None\<rparr>"

definition success :: "'a \<Rightarrow> 'a Response" where
  "success v = \<lparr>ok = True, status = 200, statusText = ''OK'', body_text = '''',
                 body_json = Some v\<rparr>"

definition out_of_service :: upstream where
  "out_of_service = \<lparr>fetch_coins = (\<lambda>key url. Resolved server_error),
                       fetch_chart = (\<lambda>key url. Resolved server_error),
                       fetch_ohlc = (\<lambda>key url. Resolved server_error)\<rparr>"

definition in_service :: upstream where
  "in_service =
     \<lparr>fetch_coins = (\<lambda>key url. Resolved (success [ethereum, tether])),
      fetch_chart =
        (\<lambda>key url. Resolved (success \<lparr>prices = [], market_caps = [], total_volumes = []\<rparr>)),
      fetch_ohlc = (\<lambda>key url. Resolved (success
         (JArr [JArr [JNum 1711296000, JNum 65000, JNum 65500, JNum 64800, JNum 65200]])))\<rparr>"

definition bar_1711296000 :: json where
  "bar_1711296000 = JArr [JNum 1711296000, JNum 65000, JNum 65500, JNum 64800, JNum 65200]"

text \<open>An argument bag with a page size beyond the maximum.\<close>

definition oversized :: "json option" where
  "oversized = Some (JObj [(''pageSize'', JNum 5000)])"

section \<open>Pagination\<close>

text \<open>
  On integer arguments the slice of \<^verbatim>\<open>getCoins\<close> is \<open>take\<close> after \<open>drop\<close>.
\<close>

lemma ToIntegerOrInfinity_of_int: "ToIntegerOrInfinity (of_int z) = z"
  by (simp add: ToIntegerOrInfinity_def)

lemma take_drop_clamped:
  "take (min (a + k) (length xs) - min a (length xs)) (drop (min a (length xs)) xs)
     = take k (drop a xs)"
proof (cases "a \<le> length xs")
  case True
  then have "min (a + k) (length xs) - a = min k (length xs - a)" by simp
  with True show ?thesis by (simp add: min_def)
next
  case False
  then show ?thesis by simp
qed

lemma array_slice_int:
  assumes "0 \<le> a" and "0 \<le> k"
  shows "array_slice xs (of_int a) (of_int a + of_int k) = take (nat k) (drop (nat a) xs)"
proof -
  have e: "of_int a + of_int k = (of_int (a + k) :: rat)" by simp
  have "array_slice xs (of_int a) (of_int (a + k))
          = take (min (nat (a + k)) (length xs) - min (nat a) (length xs))
                 (drop (min (nat a) (length xs)) xs)"
    using assms
    by (simp only: array_slice_def Let_def ToIntegerOrInfinity_of_int relativeIndex_def) simp
  also have "nat (a + k) = nat a + nat k" using assms by (simp add: nat_add_distrib)
  finally show ?thesis by (simp only: e take_drop_clamped)
qed

lemma getCoins_int:
  assumes "1 \<le> p" and "0 \<le> k"
  shows "getCoins this (of_int p) (of_int k)
           = take (nat k) (drop (nat ((p - 1) * k)) (coins this))"
proof -
  have "(of_int p - 1) * of_int k = (of_int ((p - 1) * k) :: rat)" by simp
  moreover have "0 \<le> (p - 1) * k" using assms by simp
  ultimately show ?thesis
    using assms by (simp only: getCoins_def Let_def array_slice_int)
qed

lemma concat_chunks:
  "concat (map (\<lambda>i. take k (drop (i * k) xs)) [0..<n]) = take (n * k) xs"
proof (induction n)
  case 0
  then show ?case by simp
next
  case (Suc n)
  have "Suc n * k = n * k + k" by simp
  then have "take (Suc n * k) xs = take (n * k) xs @ take k (drop (n * k) xs)"
    by (simp only: take_add)
  with Suc show ?case by simp
qed

lemma upto_from_1: "[1..int n] = map (\<lambda>i. int i + 1) [0..<n]"
proof (induction n)
  case 0
  then show ?case by simp
next
  case (Suc n)
  have "[1..int (Suc n)] = [1..int n] @ [int n + 1]"
    using upto_rec2 [of 1 "int (Suc n)"] by simp
  with Suc show ?case by simp
qed

lemma ceiling_quotient_covers:
  fixes x d :: rat
  assumes "0 < d"
  shows "x \<le> of_int \<lceil>x / d\<rceil> * d"
proof -
  have "x / d \<le> of_int \<lceil>x / d\<rceil>" by (rule le_of_int_ceiling)
  with assms show ?thesis by (simp only: pos_divide_le_eq)
qed

lemma totalPages_covers:
  assumes "1 \<le> k"
  shows "0 \<le> \<lceil>(of_nat n :: rat) / of_int k\<rceil>"
    and "int n \<le> \<lceil>(of_nat n :: rat) / of_int k\<rceil> * k"
proof -
  let ?t = "\<lceil>(of_nat n :: rat) / of_int k\<rceil>"
  have pos: "(0::rat) < of_int k" using assms by simp
  have "(0::rat) \<le> of_nat n / of_int k" using assms by simp
  then show "0 \<le> ?t" by (simp add: zero_le_ceiling)
  have "(of_nat n :: rat) \<le> of_int ?t * of_int k"
    using pos by (rule ceiling_quotient_covers)
  then have "(of_int (int n) :: rat) \<le> of_int (?t * k)" by simp
  then show "int n \<le> ?t * k" by (simp only: of_int_le_iff)
qed

lemma pages_concat:
  assumes "1 \<le> k"
  shows "\<exists>t. getTotalPages this (of_int k) = Some t \<and>
             concat (map (\<lambda>q. getCoins this (of_int q) (of_int k)) [1..t]) = coins this"
proof -
  let ?xs = "coins this"
  let ?t = "\<lceil>(of_nat (length ?xs) :: rat) / of_int k\<rceil>"
  have t: "getTotalPages this (of_int k) = Some ?t"
    using assms by (simp add: getTotalPages_def)
  have t0: "0 \<le> ?t" and cover: "int (length ?xs) \<le> ?t * k"
    using totalPages_covers [OF assms] by blast+
  define m where "m = nat ?t"
  have tm: "?t = int m" using t0 by (simp add: m_def)
  have page: "getCoins this (of_int (int i + 1)) (of_int k)
                = take (nat k) (drop (i * nat k) ?xs)" for i
  proof -
    have "nat (int i * k) = i * nat k" using assms by (simp add: nat_mult_distrib)
    then show ?thesis
      using assms getCoins_int [of "int i + 1" k this] by simp
  qed
  have "concat (map (\<lambda>q. getCoins this (of_int q) (of_int k)) [1..?t])
          = concat (map (\<lambda>i. take (nat k) (drop (i * nat k) ?xs)) [0..<m])"
    by (simp only: tm upto_from_1 map_map o_def page)
  also have "\<dots> = take (m * nat k) ?xs" by (rule concat_chunks)
  also have "\<dots> = ?xs"
  proof -
    have "int (length ?xs) \<le> int (m * nat k)" using cover assms tm by simp
    then have "length ?xs \<le> m * nat k" by (simp only: of_nat_le_iff)
    then show ?thesis by simp
  qed
  finally show ?thesis using t by blast
qed

lemma page_size_bound:
  assumes "1 \<le> p" and "1 \<le> k"
  shows "int (length (getCoins this (of_int p) (of_int k))) \<le> k"
  using assms by (simp add: getCoins_int)

lemma beyond_empty:
  assumes "1 \<le> p" and "1 \<le> k" and "getTotalPages this (of_int k) = Some t" and "t < p"
  shows "getCoins this (of_int p) (of_int k) = []"
proof -
  let ?xs = "coins this"
  have t: "t = \<lceil>(of_nat (length ?xs) :: rat) / of_int k\<rceil>"
    using assms by (simp add: getTotalPages_def split: if_splits)
  have "int (length ?xs) \<le> t * k" unfolding t using totalPages_covers(2) [OF assms(2)] .
  also have "t * k \<le> (p - 1) * k" using assms by (simp add: mult_right_mono)
  finally have "length ?xs \<le> nat ((p - 1) * k)" by simp
  then show ?thesis using assms by (simp add: getCoins_int)
qed

subsection \<open>The number of pages\<close>












text \<open>
  Claim C2, for integer arguments. For every integer page size between 1 and 1000 and
  every integer page from 1 on, \<^verbatim>\<open>getCoins\<close> returns at most \<open>pageSize\<close> records, and the
  pages 1 to \<^verbatim>\<open>getTotalPages(pageSize)\<close>, one after the other, are the cached list in
  its order, no record twice and none left out.
\<close>

theorem getCoins_pages:
  assumes "1 \<le> pageSize" and "pageSize \<le> 1000" and "1 \<le> page"
  shows "int (length (getCoins this (of_int page) (of_int pageSize))) \<le> pageSize \<and>
         (\<exists>totalPages. getTotalPages this (of_int pageSize) = Some totalPages \<and>
            concat (map (\<lambda>p. getCoins this (of_int p) (of_int pageSize)) [1..totalPages])
              = coins this)"
  using assms page_size_bound [of page pageSize this] pages_concat [of pageSize this]
  by simp

theorem getCoins_pages_witness:
  "(1::int) \<le> 2 \<and> (2::int) \<le> 1000 \<and> (1::int) \<le> 2 \<and>
   int (length (getCoins populated 2 2)) \<le> 2 \<and>
   getTotalPages populated 2 = Some 2 \<and>
   concat (map (\<lambda>p. getCoins populated (of_int p) 2) [1..2]) = coins populated"
proof -
  have t: "getTotalPages populated 2 = Some 2"
    by (simp add: getTotalPages_def populated_def ceiling_unique)
  have "int (length (getCoins populated (of_int 2) (of_int 2))) \<le> 2 \<and>
        (\<exists>totalPages. getTotalPages populated (of_int 2) = Some totalPages \<and>
           concat (map (\<lambda>p. getCoins populated (of_int p) (of_int 2)) [1..totalPages])
             = coins populated)"
    by (rule getCoins_pages) simp_all
  with t show ?thesis by simp
qed

text \<open>
  Without the restriction to integers the bound fails: with three cached records,
  page 2 of size 1.5 is \<^verbatim>\<open>slice(1.5, 3)\<close>, which holds two records.
\<close>

theorem getCoins_fractional_pageSize_counterexample:
  "(1::rat) \<le> 3 / 2 \<and> (3 / 2 :: rat) \<le> 1000 \<and> (1::rat) \<le> 2 \<and>
   \<not> rat_of_nat (length (getCoins populated 2 (3 / 2))) \<le> 3 / 2"
  by code_simp

text \<open>
  Claim C4, for integer arguments. For every integer page from 1 on and every integer
  page size between 1 and 1000, \<^verbatim>\<open>getCoins\<close> is the part of the cached list from index
  \<open>(page - 1) * pageSize\<close> up to, and without, that index plus \<open>pageSize\<close>; for a page
  beyond \<^verbatim>\<open>getTotalPages(pageSize)\<close> it is the empty list. The function has no error
  result.
\<close>

theorem getCoins_slice:
  assumes "1 \<le> page" and "1 \<le> pageSize" and "pageSize \<le> 1000"
  shows "getCoins this (of_int page) (of_int pageSize)
           = take (nat pageSize) (drop (nat ((page - 1) * pageSize)) (coins this)) \<and>
         (\<forall>i<length (getCoins this (of_int page) (of_int pageSize)).
            getCoins this (of_int page) (of_int pageSize) ! i
              = coins this ! (nat ((page - 1) * pageSize) + i)) \<and>
         (\<forall>totalPages. getTotalPages this (of_int pageSize) = Some totalPages \<and>
            totalPages < page \<longrightarrow> getCoins this (of_int page) (of_int pageSize) = [])"
proof -
  have eq: "getCoins this (of_int page) (of_int pageSize)
              = take (nat pageSize) (drop (nat ((page - 1) * pageSize)) (coins this))"
    using assms by (simp add: getCoins_int)
  moreover have "\<forall>i<length (getCoins this (of_int page) (of_int pageSize)).
      getCoins this (of_int page) (of_int pageSize) ! i
        = coins this ! (nat ((page - 1) * pageSize) + i)"
    unfolding eq by auto
  moreover have "\<forall>totalPages. getTotalPages this (of_int pageSize) = Some totalPages \<and>
      totalPages < page \<longrightarrow> getCoins this (of_int page) (of_int pageSize) = []"
    using assms beyond_empty [of page pageSize this] by blast
  ultimately show ?thesis by blast
qed

theorem getCoins_slice_witness:
  "(1::int) \<le> 3 \<and> (1::int) \<le> 2 \<and> (2::int) \<le> 1000 \<and>
   getTotalPages populated 2 = Some 2 \<and> (2::int) < 3 \<and>
   getCoins populated 3 2 = []"
proof -
  have t: "getTotalPages populated 2 = Some 2"
    by (simp add: getTotalPages_def populated_def ceiling_unique)
  have h1: "(1::int) \<le> 3" and h2: "(1::int) \<le> 2" and h3: "(2::int) \<le> 1000"
    by simp_all
  have "\<forall>totalPages. getTotalPages populated (of_int 2) = Some totalPages \<and>
      totalPages < 3 \<longrightarrow> getCoins populated (of_int 3) (of_int 2) = []"
    using getCoins_slice [OF h1 h2 h3, of populated] by blast
  with t have "getCoins populated (of_int 3) (of_int 2) = []" by simp
  with t show ?thesis by simp
qed

text \<open>
  Without the restriction to integers a page beyond the last one need not be empty:
  with one cached record and page size 1 there is one page, and page 1.5 is
  \<^verbatim>\<open>slice(0.5, 1.5)\<close>, which holds the record.
\<close>

theorem getCoins_fractional_page_counterexample:
  "(1::rat) \<le> 3 / 2 \<and> (1::rat) \<le> 1 \<and> (1::rat) \<le> 1000 \<and>
   getTotalPages single 1 = Some 1 \<and> rat_of_int 1 < 3 / 2 \<and>
   getCoins single (3 / 2) 1 \<noteq> []"
  by code_simp

section \<open>Lookup by name or symbol\<close>

lemma findCoinIds_nth:
  assumes "i < length coinNames"
  shows "findCoinIds this coinNames ! i =
           (coinNames ! i,
            case find (matches (coinNames ! i)) (coins this) of
              None \<Rightarrow> None
            | Some c \<Rightarrow> if id' c = [] then None else Some (id' c))"
proof -
  have "(\<lambda>c. toLowerCase (name c) = toLowerCase q \<or> toLowerCase (symbol c) = toLowerCase q)
          = matches q" for q
    by (rule ext) (simp add: matches_def)
  with assms show ?thesis by (simp add: findCoinIds_def Let_def)
qed


lemma find_first_match:
  assumes "j < length cs" and "P (cs ! j)" and "\<forall>j'<j. \<not> P (cs ! j')"
  shows "find P cs = Some (cs ! j)"
  using assms by (auto simp: find_Some_iff)





text \<open>
  Claim C10. No result of \<^verbatim>\<open>findCoinIds\<close> carries the empty string as id, and where the
  first record that matches a query string has the empty id, the result for that string
  is \<^verbatim>\<open>null\<close>.
\<close>

theorem findCoinIds_id_nonempty:
  "(\<forall>r\<in>set (findCoinIds this coinNames). snd r \<noteq> Some []) \<and>
   (\<forall>i<length coinNames. \<forall>j<length (coins this).
      matches (coinNames ! i) (coins this ! j) \<and>
      (\<forall>j'<j. \<not> matches (coinNames ! i) (coins this ! j')) \<and>
      id' (coins this ! j) = [] \<longrightarrow>
      findCoinIds this coinNames ! i = (coinNames ! i, None))"
proof (intro conjI ballI allI impI)
  fix r
  assume "r \<in> set (findCoinIds this coinNames)"
  then show "snd r \<noteq> Some []"
    by (auto simp: findCoinIds_def Let_def split: option.splits if_splits)
next
  fix i j
  assume i: "i < length coinNames" and j: "j < length (coins this)"
    and m: "matches (coinNames ! i) (coins this ! j) \<and>
            (\<forall>j'<j. \<not> matches (coinNames ! i) (coins this ! j')) \<and>
            id' (coins this ! j) = []"
  from j m have "find (matches (coinNames ! i)) (coins this) = Some (coins this ! j)"
    by (simp add: find_first_match)
  with i m show "findCoinIds this coinNames ! i = (coinNames ! i, None)"
    by (simp add: findCoinIds_nth)
qed

theorem findCoinIds_id_nonempty_witness:
  "(''BTC'', None) \<in> set (findCoinIds shadowed [''BTC'']) \<and>
   snd (''BTC'', None :: string option) \<noteq> Some [] \<and>
   (0::nat) < length [''BTC''] \<and> (0::nat) < length (coins shadowed) \<and>
   matches ''BTC'' (coins shadowed ! 0) \<and> id' (coins shadowed ! 0) = [] \<and>
   findCoinIds shadowed [''BTC''] ! 0 = (''BTC'', None)"
proof -
  note claim = findCoinIds_id_nonempty [of shadowed "[''BTC'']"]
  have i: "(0::nat) < length [''BTC'']" by simp
  have j: "(0::nat) < length (coins shadowed)" by (simp add: shadowed_def)
  have m: "matches ''BTC'' (coins shadowed ! 0)"
    by (simp add: shadowed_def nameless_def matches_def toLowerCase_def lower_char_def)
  have e: "id' (coins shadowed ! 0) = []" by (simp add: shadowed_def nameless_def)
  have "\<forall>i<length [''BTC'']. \<forall>j<length (coins shadowed).
      matches ([''BTC''] ! i) (coins shadowed ! j) \<and>
      (\<forall>j'<j. \<not> matches ([''BTC''] ! i) (coins shadowed ! j')) \<and>
      id' (coins shadowed ! j) = [] \<longrightarrow>
      findCoinIds shadowed [''BTC''] ! i = ([''BTC''] ! i, None)"
    using claim by blast
  moreover have "matches ([''BTC''] ! 0) (coins shadowed ! 0)" using m by simp
  moreover have "\<forall>j'<0::nat. \<not> matches ([''BTC''] ! 0) (coins shadowed ! j')" by simp
  ultimately have "findCoinIds shadowed [''BTC''] ! 0 = ([''BTC''] ! 0, None)"
    using i j e by blast
  then have r: "findCoinIds shadowed [''BTC''] ! 0 = (''BTC'', None)" by simp
  have "length (findCoinIds shadowed [''BTC'']) = 1" by (simp add: findCoinIds_def)
  with r have mem: "(''BTC'', None) \<in> set (findCoinIds shadowed [''BTC''])"
    by (metis nth_mem zero_less_one)
  moreover have "\<forall>r\<in>set (findCoinIds shadowed [''BTC'']). snd r \<noteq> Some []"
    using claim by blast
  ultimately have "snd (''BTC'', None :: string option) \<noteq> Some []" by blast
  with mem i j m e r show ?thesis by blast
qed

section \<open>Refreshing the cache\<close>

lemma set_array_slice: "set (array_slice xs a b) \<subseteq> set xs"
proof -
  have "set (take n (drop k xs)) \<subseteq> set xs" for n k
    using set_take_subset [of n "drop k xs"] set_drop_subset [of k xs] by blast
  then show ?thesis by (simp add: array_slice_def Let_def)
qed

lemma set_getCoins: "set (getCoins this page pageSize) \<subseteq> set (coins this)"
  by (simp add: getCoins_def Let_def set_array_slice)

lemma findCoinIds_found:
  assumes "(q, Some i) \<in> set (findCoinIds this coinNames)"
  shows "\<exists>c\<in>set (coins this). id' c = i \<and> matches q c"
proof -
  from assms obtain c where f: "find (matches q) (coins this) = Some c" and "id' c = i"
    by (auto simp: findCoinIds_def Let_def matches_def [abs_def] split: option.splits if_splits)
  moreover from f have "c \<in> set (coins this) \<and> matches q c"
    by (auto simp: find_Some_iff)
  ultimately show ?thesis by blast
qed

text \<open>
  Claim C3. When the request of \<^verbatim>\<open>refreshCoinList\<close> is rejected, or the response is not
  \<^verbatim>\<open>ok\<close>, or its body is not JSON, the call fails with an error and the object is as
  before. Whenever the call fails, the object is as before: the cached list, the
  timestamp, and every result of \<^verbatim>\<open>getCoins\<close>, \<^verbatim>\<open>findCoinIds\<close> and \<^verbatim>\<open>getLastUpdated\<close>.
\<close>

theorem refreshCoinList_failure:
  "((case fetch_coins up (apiKey this) CoinsList of
       Rejected e \<Rightarrow> True
     | Resolved response \<Rightarrow> \<not> ok response \<or> body_json response = None) \<longrightarrow>
    (\<exists>e. refreshCoinList up now this = (Inl e, this))) \<and>
   (\<forall>e this'. refreshCoinList up now this = (Inl e, this') \<longrightarrow>
      this' = this \<and> coins this' = coins this \<and> lastUpdated this' = lastUpdated this \<and>
      getLastUpdated this' = getLastUpdated this \<and>
      (\<forall>page pageSize. getCoins this' page pageSize = getCoins this page pageSize) \<and>
      (\<forall>coinNames. findCoinIds this' coinNames = findCoinIds this coinNames))"
proof -
  have surfaced: "\<exists>e. refreshCoinList up now this = (Inl e, this)"
    if "case fetch_coins up (apiKey this) CoinsList of
          Rejected e \<Rightarrow> True
        | Resolved response \<Rightarrow> \<not> ok response \<or> body_json response = None"
    using that by (auto simp: refreshCoinList_def split: fetch_result.splits)
  have unchanged: "this' = this" if "refreshCoinList up now this = (Inl e, this')" for e this'
    using that
    by (auto simp: refreshCoinList_def split: fetch_result.splits if_splits option.splits)
  show ?thesis
    by (auto dest!: unchanged simp: surfaced)
qed

theorem refreshCoinList_failure_witness:
  "(case fetch_coins out_of_service (apiKey populated) CoinsList of
      Rejected e \<Rightarrow> True
    | Resolved response \<Rightarrow> \<not> ok response \<or> body_json response = None) \<and>
   refreshCoinList out_of_service 1711382400000 populated
     = (Inl (Error ''API request failed: Internal Server Error''), populated) \<and>
   getLastUpdated populated = Some 1711296000000"
proof -
  have c: "case fetch_coins out_of_service (apiKey populated) CoinsList of
             Rejected e \<Rightarrow> True
           | Resolved response \<Rightarrow> \<not> ok response \<or> body_json response = None"
    by (simp add: out_of_service_def server_error_def)
  with refreshCoinList_failure [of out_of_service populated 1711382400000]
  obtain e where "refreshCoinList out_of_service 1711382400000 populated = (Inl e, populated)"
    by blast
  moreover have "fst (refreshCoinList out_of_service 1711382400000 populated)
                   = Inl (Error ''API request failed: Internal Server Error'')"
    by (simp add: refreshCoinList_def out_of_service_def server_error_def)
  ultimately have "refreshCoinList out_of_service 1711382400000 populated
      = (Inl (Error ''API request failed: Internal Server Error''), populated)"
    by simp
  with c show ?thesis by (simp add: getLastUpdated_def populated_def)
qed

text \<open>
  Claim C6. A successful \<^verbatim>\<open>refreshCoinList\<close> stores the list of the response as the
  cached list and the current time as the timestamp. A record of the old list that is
  absent from the response is in no page of \<^verbatim>\<open>getCoins\<close> afterwards; every id that
  \<^verbatim>\<open>findCoinIds\<close> reports afterwards is the id of a record of the response that matches
  the query string; and the results are those of any object that caches the response,
  whatever the old list was.
\<close>

theorem refreshCoinList_replaces:
  assumes "fetch_coins up (apiKey this) CoinsList = Resolved response"
    and "ok response" and "body_json response = Some fresh"
  shows "\<exists>this'. refreshCoinList up now this = (Inr (), this') \<and>
           coins this' = fresh \<and> lastUpdated this' = Some now \<and>
           (\<forall>c\<in>set (coins this). c \<notin> set fresh \<longrightarrow>
              (\<forall>page pageSize. c \<notin> set (getCoins this' page pageSize))) \<and>
           (\<forall>coinNames q i. (q, Some i) \<in> set (findCoinIds this' coinNames) \<longrightarrow>
              (\<exists>c\<in>set fresh. id' c = i \<and> matches q c)) \<and>
           (\<forall>other. coins other = fresh \<longrightarrow>
              (\<forall>page pageSize. getCoins this' page pageSize = getCoins other page pageSize) \<and>
              (\<forall>coinNames. findCoinIds this' coinNames = findCoinIds other coinNames))"
proof -
  let ?this' = "this\<lparr>coins := fresh, lastUpdated := Some now\<rparr>"
  have r: "refreshCoinList up now this = (Inr (), ?this')"
    using assms by (simp add: refreshCoinList_def)
  have c: "coins ?this' = fresh" by simp
  have a: "\<forall>c\<in>set (coins this). c \<notin> set fresh \<longrightarrow>
             (\<forall>page pageSize. c \<notin> set (getCoins ?this' page pageSize))"
    using set_getCoins [of ?this'] by auto
  have b: "\<forall>coinNames q i. (q, Some i) \<in> set (findCoinIds ?this' coinNames) \<longrightarrow>
             (\<exists>c\<in>set fresh. id' c = i \<and> matches q c)"
    using findCoinIds_found [of _ _ ?this'] by simp
  have d: "\<forall>other. coins other = fresh \<longrightarrow>
             (\<forall>page pageSize. getCoins ?this' page pageSize = getCoins other page pageSize) \<and>
             (\<forall>coinNames. findCoinIds ?this' coinNames = findCoinIds other coinNames)"
    by (simp add: getCoins_def findCoinIds_def)
  from r c a b d show ?thesis by simp
qed

theorem refreshCoinList_replaces_witness:
  "fetch_coins in_service (apiKey populated) CoinsList = Resolved (success [ethereum, tether]) \<and>
   ok (success [ethereum, tether]) \<and>
   body_json (success [ethereum, tether]) = Some [ethereum, tether] \<and>
   bitcoin \<in> set (coins populated) \<and> bitcoin \<notin> set [ethereum, tether] \<and>
   (\<exists>this'. refreshCoinList in_service 1711382400000 populated = (Inr (), this') \<and>
      coins this' = [ethereum, tether] \<and> lastUpdated this' = Some 1711382400000 \<and>
      bitcoin \<notin> set (getCoins this' 1 100))"
proof -
  have f: "fetch_coins in_service (apiKey populated) CoinsList
             = Resolved (success [ethereum, tether])"
    by (simp add: in_service_def)
  have o: "ok (success [ethereum, tether])" by (simp add: success_def)
  have j: "body_json (success [ethereum, tether]) = Some [ethereum, tether]"
    by (simp add: success_def)
  have old: "bitcoin \<in> set (coins populated)" by (simp add: populated_def)
  have new: "bitcoin \<notin> set [ethereum, tether]"
    by (simp add: bitcoin_def ethereum_def tether_def)
  from refreshCoinList_replaces [OF f o j, of 1711382400000] old new
  have "\<exists>this'. refreshCoinList in_service 1711382400000 populated = (Inr (), this') \<and>
      coins this' = [ethereum, tether] \<and> lastUpdated this' = Some 1711382400000 \<and>
      bitcoin \<notin> set (getCoins this' 1 100)"
    by blast
  with f o j old new show ?thesis by blast
qed

section \<open>The queries leave the object unchanged\<close>

lemma invoke_query: "query m \<Longrightarrow> snd (invoke up now m this) = this"
  by (cases m) simp_all

text \<open>
  Claim C9. After any sequence of calls of \<^verbatim>\<open>getCoins\<close>, \<^verbatim>\<open>findCoinIds\<close>,
  \<^verbatim>\<open>getTotalPages\<close> and \<^verbatim>\<open>getLastUpdated\<close>, with any arguments, the object is the one
  before the calls: the same cached list and the same timestamp. The same holds for
  each single call.
\<close>

theorem queries_preserve_state:
  assumes "\<forall>m\<in>set ms. query m"
  shows "snd (invoke_all up now ms this) = this \<and>
         coins (snd (invoke_all up now ms this)) = coins this \<and>
         lastUpdated (snd (invoke_all up now ms this)) = lastUpdated this \<and>
         (\<forall>m\<in>set ms. snd (invoke up now m this) = this)"
proof -
  have "snd (invoke_all up now ms this) = this" using assms
  proof (induction ms)
    case Nil
    then show ?case by simp
  next
    case (Cons m ms)
    then have "snd (invoke up now m this) = this" by (simp add: invoke_query)
    with Cons show ?case by (simp add: split_beta)
  qed
  moreover have "\<forall>m\<in>set ms. snd (invoke up now m this) = this"
    using assms by (simp add: invoke_query)
  ultimately show ?thesis by simp
qed

theorem queries_preserve_state_witness:
  "query (Call_getCoins (Some 2) (Some 2)) \<and> query (Call_findCoinIds [''BTC'']) \<and>
   query (Call_getTotalPages None) \<and> query Call_getLastUpdated \<and>
   snd (invoke_all in_service 1711382400000
          [Call_getCoins (Some 2) (Some 2), Call_findCoinIds [''BTC''],
           Call_getTotalPages None, Call_getLastUpdated] populated) = populated"
proof -
  let ?ms = "[Call_getCoins (Some 2) (Some 2), Call_findCoinIds [''BTC''],
              Call_getTotalPages None, Call_getLastUpdated]"
  have q: "\<forall>m\<in>set ?ms. query m" by simp
  from queries_preserve_state [OF q, of in_service 1711382400000 populated]
  show ?thesis by simp
qed

section \<open>Candlesticks\<close>

lemma map_throwing_reshape:
  assumes "\<forall>row\<in>set rows. \<exists>t p h l c. row = JArr [t, p, h, l, c]"
  shows "\<exists>bars. map_throwing reshape rows = Inr bars \<and> length bars = length rows \<and>
           (\<forall>i<length rows. \<forall>t p h l c. rows ! i = JArr [t, p, h, l, c] \<longrightarrow>
              bars ! i = \<lparr>timestamp = Some t, open_price = Some p, high = Some h,
                          low = Some l, close_price = Some c\<rparr>)"
  using assms
proof (induction rows)
  case Nil
  then show ?case by simp
next
  case (Cons row rows)
  then obtain bars where bars: "map_throwing reshape rows = Inr bars"
      "length bars = length rows"
      "\<forall>i<length rows. \<forall>t p h l c. rows ! i = JArr [t, p, h, l, c] \<longrightarrow>
              bars ! i = \<lparr>timestamp = Some t, open_price = Some p, high = Some h,
                          low = Some l, close_price = Some c\<rparr>"
    by auto
  from Cons.prems obtain t p h l c where row: "row = JArr [t, p, h, l, c]" by auto
  let ?bar = "\<lparr>timestamp = Some t, open_price = Some p, high = Some h,
                low = Some l, close_price = Some c\<rparr>"
  have "reshape row = Inr ?bar" by (simp add: row reshape_def position_def)
  with bars(1) have m: "map_throwing reshape (row # rows) = Inr (?bar # bars)" by simp
  have "\<forall>i<length (row # rows). \<forall>t p h l c. (row # rows) ! i = JArr [t, p, h, l, c] \<longrightarrow>
              (?bar # bars) ! i = \<lparr>timestamp = Some t, open_price = Some p, high = Some h,
                          low = Some l, close_price = Some c\<rparr>"
    using bars(3) row by (auto simp: nth_Cons split: nat.splits)
  with m bars(2) show ?case by simp
qed

text \<open>
  Claim C8. When the response of the OHLC request is an array of arrays of five
  elements, \<^verbatim>\<open>getOHLCData\<close> returns as many bars, in the same order, and the bar at
  position \<open>i\<close> has the five elements of the array at position \<open>i\<close> as its \<^verbatim>\<open>timestamp\<close>,
  \<^verbatim>\<open>open\<close>, \<^verbatim>\<open>high\<close>, \<^verbatim>\<open>low\<close> and \<^verbatim>\<open>close\<close>.
\<close>

theorem getOHLCData_reshapes:
  assumes "fetch_ohlc up (apiKey this) (OHLCRange cid vs_currency from to interval)
             = Resolved response"
    and "ok response" and "body_json response = Some (JArr rows)"
    and "\<forall>row\<in>set rows. \<exists>t p h l c. row = JArr [t, p, h, l, c]"
  shows "\<exists>bars. getOHLCData up this cid vs_currency from to interval = Inr bars \<and>
           length bars = length rows \<and>
           (\<forall>i<length rows. \<forall>t p h l c. rows ! i = JArr [t, p, h, l, c] \<longrightarrow>
              bars ! i = \<lparr>timestamp = Some t, open_price = Some p, high = Some h,
                          low = Some l, close_price = Some c\<rparr>)"
proof -
  have "getOHLCData up this cid vs_currency from to interval = map_throwing reshape rows"
    using assms(1-3) by (simp add: getOHLCData_def)
  with map_throwing_reshape [OF assms(4)] show ?thesis by simp
qed

theorem getOHLCData_reshapes_witness:
  "fetch_ohlc in_service (apiKey populated)
      (OHLCRange ''bitcoin'' ''usd'' 1711296000 1711382400 ''hourly'')
     = Resolved (success (JArr [bar_1711296000])) \<and>
   ok (success (JArr [bar_1711296000])) \<and>
   body_json (success (JArr [bar_1711296000])) = Some (JArr [bar_1711296000]) \<and>
   bar_1711296000
     = JArr [JNum 1711296000, JNum 65000, JNum 65500, JNum 64800, JNum 65200] \<and>
   getOHLCData in_service populated ''bitcoin'' ''usd'' 1711296000 1711382400 ''hourly''
     = Inr [\<lparr>timestamp = Some (JNum 1711296000), open_price = Some (JNum 65000),
              high = Some (JNum 65500), low = Some (JNum 64800),
              close_price = Some (JNum 65200)\<rparr>]"
proof -
  let ?rows = "[bar_1711296000]"
  have f: "fetch_ohlc in_service (apiKey populated)
             (OHLCRange ''bitcoin'' ''usd'' 1711296000 1711382400 ''hourly'')
           = Resolved (success (JArr ?rows))"
    by (simp add: in_service_def bar_1711296000_def)
  have o: "ok (success (JArr ?rows))" by (simp add: success_def)
  have j: "body_json (success (JArr ?rows)) = Some (JArr ?rows)" by (simp add: success_def)
  have s: "\<forall>row\<in>set ?rows. \<exists>t p h l c. row = JArr [t, p, h, l, c]"
    by (simp add: bar_1711296000_def)
  from getOHLCData_reshapes [OF f o j s]
  obtain bars where b: "getOHLCData in_service populated ''bitcoin'' ''usd'' 1711296000
                          1711382400 ''hourly'' = Inr bars"
    and n: "length bars = length ?rows"
    and e: "\<forall>i<length ?rows. \<forall>t p h l c. ?rows ! i = JArr [t, p, h, l, c] \<longrightarrow>
              bars ! i = \<lparr>timestamp = Some t, open_price = Some p, high = Some h,
                          low = Some l, close_price = Some c\<rparr>"
    by blast
  from e have "bars ! 0 = \<lparr>timestamp = Some (JNum 1711296000), open_price = Some (JNum 65000),
              high = Some (JNum 65500), low = Some (JNum 64800),
              close_price = Some (JNum 65200)\<rparr>"
    by (simp add: bar_1711296000_def)
  with n have "bars = [\<lparr>timestamp = Some (JNum 1711296000), open_price = Some (JNum 65000),
              high = Some (JNum 65500), low = Some (JNum 64800),
              close_price = Some (JNum 65200)\<rparr>]"
    by (cases bars) simp_all
  with b f o j show ?thesis by (simp add: bar_1711296000_def)
qed

section \<open>Invalid arguments\<close>

lemma oversized_rejected:
  "GetCoinsArgumentsSchema schemas oversized
     = Inl [\<lparr>path = [''pageSize''], message = ''Number must be less than or equal to 1000''\<rparr>]"
  by (simp add: schemas_def oversized_def z_object_def both_def z_optional_def z_number_def
      issues_of_def show_nat.simps)

text \<open>
  Claim C7. When the schema of the requested tool rejects the argument bag, the handler
  throws the error \<^verbatim>\<open>Invalid arguments:\<close> followed, for each issue, by the path of the
  field and the message of the constraint; the cache is as before and no method of the
  cache, hence no request to the upstream, has been called.
\<close>

theorem handler_invalid_arguments:
  assumes "tool = ''get-coins'' \<and> GetCoinsArgumentsSchema z args = Inl issues \<or>
           tool = ''find-coin-ids'' \<and> FindCoinIdsArgumentsSchema z args = Inl issues \<or>
           tool = ''get-historical-data'' \<and> GetHistoricalDataArgumentsSchema z args = Inl issues"
  shows "handler z up now tool args cache =
           (Inl (Error (''Invalid arguments: '' @
                        join '', '' (map (\<lambda>e. join ''.'' (path e) @ '': '' @ message e) issues))),
            cache, [])"
proof -
  consider (coins) "tool = ''get-coins''" "GetCoinsArgumentsSchema z args = Inl issues"
    | (ids) "tool = ''find-coin-ids''" "FindCoinIdsArgumentsSchema z args = Inl issues"
    | (series) "tool = ''get-historical-data''"
        "GetHistoricalDataArgumentsSchema z args = Inl issues"
    using assms by blast
  then have "handler_try z up now tool args cache = (Inl (ZodError issues), cache, [])"
  proof cases
    case coins
    then show ?thesis by (simp add: handler_try_def)
  next
    case ids
    then show ?thesis by (simp add: handler_try_def)
  next
    case series
    then show ?thesis by (simp add: handler_try_def)
  qed
  then show ?thesis
    by (simp add: handler_def handler_catch_def)
qed

theorem handler_invalid_arguments_witness:
  "GetCoinsArgumentsSchema schemas oversized
     = Inl [\<lparr>path = [''pageSize''], message = ''Number must be less than or equal to 1000''\<rparr>] \<and>
   handler schemas in_service 1711382400000 ''get-coins'' oversized populated
     = (Inl (Error ''Invalid arguments: pageSize: Number must be less than or equal to 1000''),
        populated, [])"
proof -
  have "handler schemas in_service 1711382400000 ''get-coins'' oversized populated
     = (Inl (Error (''Invalid arguments: '' @
                        join '', '' (map (\<lambda>e. join ''.'' (path e) @ '': '' @ message e)
           [\<lparr>path = [''pageSize''], message = ''Number must be less than or equal to 1000''\<rparr>]))),
        populated, [])"
    by (rule handler_invalid_arguments) (simp add: oversized_rejected)
  then show ?thesis by (simp add: oversized_rejected)
qed

end
